theory Spec2Isabelle
  imports Main "HOL-Library.Word"
begin

unbundle bit_operations_syntax

section \<open>Data model\<close>

text \<open>
  Paste ids are Go \<open>int64\<close> values in package sqldb (\<open>rand.Int63()\<close>, \<open>Get(id int64)\<close>)
  and \<open>uint64\<close> values in package http (\<open>rand.Uint64()\<close>); both are 64-bit words here,
  read with \<open>sint\<close> and \<open>unat\<close> respectively.

  An instant (\<open>time.Time\<close>) is the number of nanoseconds since 0001-01-01 00:00:00 UTC,
  the instant of Go's zero \<open>time.Time{}\<close>. The range is taken as unbounded, the
  location as UTC, and the monotonic clock reading is left out.
\<close>

type_synonym int64 = "64 word"
type_synonym time = int

definition zero_time :: time where
  "zero_time = 0"

text \<open>
  Modelled from the spec: the struct \<open>api.Paste\<close> is declared in package api, which is
  not part of the sources at hand. Its fields are the ones the struct literal in
  \<open>PasteService.Create\<close> assigns; the persisted schema of the spec lists the same columns.
\<close>

record paste =
  ID :: int64
  Title :: string
  Body :: string
  Expires :: time
  DeleteAfterRead :: bool
  Privacy :: string
  Password :: string
  Created :: time
  Syntax :: string
  UserID :: int64

text \<open>
  Modelled from the spec: the struct \<open>api.PasteForm\<close>, with the fields that
  \<open>PasteService.Create\<close> reads.
\<close>

record paste_form =
  form_Title :: string
  form_Body :: string
  form_Expires :: string
  form_DeleteAfterRead :: bool
  form_Privacy :: string
  form_Password :: string
  form_Syntax :: string
  form_UserID :: int64

section \<open>The database behind gorm\<close>

text \<open>
  The table of pastes is a map from primary key to row. \<open>fault\<close>, when set, is a
  failure of the database itself (a lost connection, a constraint of the schema): every
  statement then returns it and changes nothing. The primary key is stored as given.
\<close>

datatype gorm_error = ErrRecordNotFound | ErrDuplicatedKey | ErrFault string

record database =
  rows :: "int64 \<rightharpoonup> paste"
  fault :: "string option"

definition gorm_First :: "database \<Rightarrow> int64 \<Rightarrow> gorm_error + paste" where
  "gorm_First d i =
     (case fault d of
        Some m \<Rightarrow> Inl (ErrFault m)
      | None \<Rightarrow> (case rows d i of None \<Rightarrow> Inl ErrRecordNotFound | Some p \<Rightarrow> Inr p))"

definition gorm_Create :: "database \<Rightarrow> paste \<Rightarrow> gorm_error + database" where
  "gorm_Create d p =
     (case fault d of
        Some m \<Rightarrow> Inl (ErrFault m)
      | None \<Rightarrow>
          (case rows d (ID p) of
             Some q \<Rightarrow> Inl ErrDuplicatedKey
           | None \<Rightarrow> Inr (d\<lparr>rows := (rows d)(ID p \<mapsto> p)\<rparr>)))"

text \<open>gorm's \<open>Delete\<close> reports no error when no row matches the key.\<close>

definition gorm_Delete :: "database \<Rightarrow> int64 \<Rightarrow> gorm_error + database" where
  "gorm_Delete d i =
     (case fault d of
        Some m \<Rightarrow> Inl (ErrFault m)
      | None \<Rightarrow> Inr (d\<lparr>rows := (rows d)(i := None)\<rparr>))"

section \<open>The process-wide random generator\<close>

text \<open>
  \<open>math/rand\<close> is a deterministic generator: a seed fixes the whole sequence of outputs.
  The state of the generator is the sequence of 64-bit values it will still produce; the
  seeding function is a parameter \<open>seeded\<close> of the operations that reseed.
  \<open>rand.Int63\<close> is \<open>rand.Uint64\<close> with the top bit masked off; both advance the
  generator by one step.
\<close>

type_synonym rng = "nat \<Rightarrow> 64 word"

definition rand_Uint64 :: "rng \<Rightarrow> 64 word \<times> rng" where
  "rand_Uint64 g = (g 0, \<lambda>n. g (Suc n))"

definition rngMask :: "64 word" where
  "rngMask = 0x7FFFFFFFFFFFFFFF"

definition rand_Int63 :: "rng \<Rightarrow> int64 \<times> rng" where
  "rand_Int63 g = (case rand_Uint64 g of (v, g') \<Rightarrow> (v AND rngMask, g'))"

text \<open>\<open>Time.UnixNano\<close>: nanoseconds since 1970-01-01 00:00:00 UTC, as an \<open>int64\<close>.\<close>

definition unixToInternal :: int where
  "unixToInternal = 62135596800"

definition UnixNano :: "time \<Rightarrow> int64" where
  "UnixNano t = word_of_int (t - unixToInternal * 1000000000)"

section \<open>strconv.Atoi\<close>

text \<open>
  \<open>strconv.Atoi(s)\<close> is \<open>ParseInt(s, 10, 0)\<close> on a 64-bit platform: an optional sign,
  then decimal digits only; \<open>ErrSyntax\<close> on the empty string, on a sign alone and at
  the first byte that is not a digit; \<open>ErrRange\<close> when the value does not fit an
  \<open>int64\<close>. The digits are scanned from the left, as \<open>ParseUint\<close> does, with its
  two overflow checks.
\<close>

datatype num_error = ErrSyntax | ErrRange

definition isDigit :: "char \<Rightarrow> bool" where
  "isDigit c = (48 \<le> (of_char c :: nat) \<and> (of_char c :: nat) \<le> 57)"

definition digitVal :: "char \<Rightarrow> nat" where
  "digitVal c = of_char c - 48"

definition maxUint64 :: nat where
  "maxUint64 = 18446744073709551615"

fun ParseUint_loop :: "nat \<Rightarrow> string \<Rightarrow> num_error + nat" where
  "ParseUint_loop n [] = Inr n"
| "ParseUint_loop n (c # cs) =
     (if \<not> isDigit c then Inl ErrSyntax
      else if n \<ge> maxUint64 div 10 + 1 then Inl ErrRange
      else if n * 10 + digitVal c > maxUint64 then Inl ErrRange
      else ParseUint_loop (n * 10 + digitVal c) cs)"

definition ParseUint :: "string \<Rightarrow> num_error + nat" where
  "ParseUint s = (if s = [] then Inl ErrSyntax else ParseUint_loop 0 s)"

definition ParseInt :: "string \<Rightarrow> num_error + int" where
  "ParseInt s =
     (case s of
        [] \<Rightarrow> Inl ErrSyntax
      | c # cs \<Rightarrow>
          let neg = (c = CHR ''-'');
              s' = (if c = CHR ''+'' \<or> c = CHR ''-'' then cs else s)
          in (case ParseUint s' of
                Inl e \<Rightarrow> Inl e
              | Inr un \<Rightarrow>
                  if \<not> neg \<and> un \<ge> 2 ^ 63 then Inl ErrRange
                  else if neg \<and> un > 2 ^ 63 then Inl ErrRange
                  else Inr (if neg then - int un else int un)))"

definition Atoi :: "string \<Rightarrow> num_error + int" where
  "Atoi s = ParseInt s"

section \<open>Package time\<close>

text \<open>
  A \<open>time.Duration\<close> is an \<open>int64\<close> count of nanoseconds; the products
  \<open>time.Duration(dur) * time.Minute\<close> and \<open>dur * 7\<close> of \<open>Create\<close> are 64-bit
  multiplications and wrap around. \<open>Add\<close> adds the signed duration to the instant.
\<close>

definition Minute :: int64 where
  "Minute = 60000000000"

definition Hour :: int64 where
  "Hour = 3600000000000"

definition Add :: "time \<Rightarrow> int64 \<Rightarrow> time" where
  "Add t d = t + sint d"

text \<open>
  The calendar of \<open>time.Date\<close> and \<open>Time.AddDate\<close>, in UTC: the proleptic Gregorian
  calendar. \<open>daysSinceEpoch year\<close> counts the days from January 1 of year 1 to January 1
  of \<open>year\<close>; \<open>daysBefore m\<close> the days of a non-leap year before the month with index
  \<open>m\<close> (January is 0). \<open>Date\<close> accepts values outside their usual ranges and
  normalises them: the month overflows into the year, and the day, hour, minute, second
  and nanosecond simply add up.
\<close>

definition isLeap :: "int \<Rightarrow> bool" where
  "isLeap year = (year mod 4 = 0 \<and> (year mod 100 \<noteq> 0 \<or> year mod 400 = 0))"

definition daysSinceEpoch :: "int \<Rightarrow> int" where
  "daysSinceEpoch year =
     (let y = year - 1 in 365 * y + y div 4 - y div 100 + y div 400)"

definition daysBefore :: "int \<Rightarrow> int" where
  "daysBefore m =
     (if m \<le> 0 then 0 else if m = 1 then 31 else if m = 2 then 59 else if m = 3 then 90
      else if m = 4 then 120 else if m = 5 then 151 else if m = 6 then 181
      else if m = 7 then 212 else if m = 8 then 243 else if m = 9 then 273
      else if m = 10 then 304 else if m = 11 then 334 else 365)"

definition Date :: "int \<Rightarrow> int \<Rightarrow> int \<Rightarrow> int \<Rightarrow> int \<Rightarrow> int \<Rightarrow> int \<Rightarrow> time" where
  "Date year month day hour minute sec nsec =
     (let m = month - 1;
          y = year + m div 12;
          m' = m mod 12;
          d = daysSinceEpoch y + daysBefore m' + (if isLeap y \<and> 2 \<le> m' then 1 else 0)
                + (day - 1)
      in (d * 86400 + hour * 3600 + minute * 60 + sec) * 1000000000 + nsec)"

text \<open>
  The year and the day within the year of a day number: 400-year cycles, then 100-year
  cycles (the fourth is cut back to the third on the last day of the 400 years), then
  4-year cycles, then years (cut back likewise).
\<close>

definition absDate :: "int \<Rightarrow> int \<times> int" where
  "absDate d =
     (let n400 = d div 146097;
          d1 = d - 146097 * n400;
          n100 = d1 div 36524;
          n100' = n100 - n100 div 4;
          d2 = d1 - 36524 * n100';
          n4 = d2 div 1461;
          d3 = d2 - 1461 * n4;
          n1 = d3 div 365;
          n1' = n1 - n1 div 4;
          yday = d3 - 365 * n1'
      in (1 + 400 * n400 + 100 * n100' + 4 * n4 + n1', yday))"

text \<open>
  The month (1 to 12) and the day of the month of a day within the year: the leap day
  apart, the month is estimated as if every month had 31 days and adjusted by one.
\<close>

definition monthDay :: "bool \<Rightarrow> int \<Rightarrow> int \<times> int" where
  "monthDay leap yday =
     (if leap \<and> yday = 31 + 29 - 1 then (2, 29)
      else
        let day = (if leap \<and> yday > 31 + 29 - 1 then yday - 1 else yday);
            month = day div 31;
            end = daysBefore (month + 1)
        in if day \<ge> end then (month + 2, day - end + 1)
           else (month + 1, day - daysBefore month + 1))"

definition Date_of :: "time \<Rightarrow> int \<times> int \<times> int" where
  "Date_of t =
     (case absDate (t div 86400000000000) of
        (year, yday) \<Rightarrow>
          (case monthDay (isLeap year) yday of (month, day) \<Rightarrow> (year, month, day)))"

definition Clock :: "time \<Rightarrow> int \<times> int \<times> int" where
  "Clock t =
     (let s = (t div 1000000000) mod 86400
      in (s div 3600, (s mod 3600) div 60, s mod 60))"

definition Nanosecond :: "time \<Rightarrow> int" where
  "Nanosecond t = t mod 1000000000"

definition AddDate :: "time \<Rightarrow> int \<Rightarrow> int \<Rightarrow> int \<Rightarrow> time" where
  "AddDate t years months days =
     (case Date_of t of (year, month, day) \<Rightarrow>
      case Clock t of (hour, minute, sec) \<Rightarrow>
        Date (year + years) (month + months) (day + days) hour minute sec (Nanosecond t))"

section \<open>Package sqldb\<close>

text \<open>
  \<open>PasteService\<close> holds the database handle, which may be nil. The process-wide
  generator is kept alongside, since \<open>New\<close> seeds it and \<open>Create\<close> draws from it.
\<close>

record PasteService =
  db :: "database option"
  rand_src :: rng

datatype error =
    NoDatabaseConnection
  | DatabaseError gorm_error
  | WrongDurationFormat string num_error
  | UnknownDurationFormat string
  | HashError string
  | GormError gorm_error
  | NilPointerPanic

definition New :: "(int64 \<Rightarrow> rng) \<Rightarrow> time \<Rightarrow> database option \<Rightarrow> PasteService" where
  "New seeded now conn = \<lparr>db = conn, rand_src = seeded (UnixNano now)\<rparr>"

text \<open>
  \<open>DatabaseError\<close> is the error that \<open>Get\<close> wraps (\<open>Get: database error: ...\<close>);
  \<open>GormError\<close> is an error of gorm returned as it is, by \<open>Create\<close> and \<open>Delete\<close>.

  \<open>Get\<close>: \<open>Inl\<close> is the error return, \<open>Inr None\<close> is the pair (nil, nil) for a
  paste that is not found, \<open>Inr (Some p)\<close> is the paste.
\<close>

definition Get :: "PasteService \<Rightarrow> int64 \<Rightarrow> error + paste option" where
  "Get s i =
     (case db s of
        None \<Rightarrow> Inl NoDatabaseConnection
      | Some d \<Rightarrow>
          (case gorm_First d i of
             Inl ErrRecordNotFound \<Rightarrow> Inr None
           | Inl e \<Rightarrow> Inl (DatabaseError e)
           | Inr p \<Rightarrow> Inr (Some p)))"

text \<open>
  The expiration that \<open>Create\<close> computes from the form's \<open>Expires\<close> and the instant
  of creation: the zero instant unless the expression differs from \<open>never\<close> and has
  more than one byte; then everything but the last byte goes through \<open>Atoi\<close>, and the
  last byte selects the unit.
\<close>

definition Create_expires :: "time \<Rightarrow> string \<Rightarrow> error + time" where
  "Create_expires created e =
     (if e \<noteq> ''never'' \<and> length e > 1 then
        (case Atoi (butlast e) of
           Inl err \<Rightarrow> Inl (WrongDurationFormat e err)
         | Inr dur \<Rightarrow>
             let u = last e in
             if u = CHR ''m'' then Inr (Add created (word_of_int dur * Minute))
             else if u = CHR ''h'' then Inr (Add created (word_of_int dur * Hour))
             else if u = CHR ''d'' then Inr (AddDate created 0 0 dur)
             else if u = CHR ''w'' then
               Inr (AddDate created 0 0 (sint (word_of_int dur * 7 :: 64 word)))
             else if u = CHR ''M'' then Inr (AddDate created 0 dur 0)
             else if u = CHR ''y'' then Inr (AddDate created dur 0 0)
             else Inl (UnknownDurationFormat e))
      else Inr zero_time)"

text \<open>
  The password that \<open>Create\<close> stores: the bcrypt hash of a non-empty password, the
  empty string otherwise. \<open>hash\<close> is \<open>bcrypt.GenerateFromPassword\<close> at the default
  cost, with its salt already drawn.
\<close>

definition Create_password :: "(string \<Rightarrow> string + string) \<Rightarrow> string \<Rightarrow> error + string" where
  "Create_password hash pw =
     (if pw \<noteq> [] then
        (case hash pw of Inl m \<Rightarrow> Inl (HashError m) | Inr h \<Rightarrow> Inr h)
      else Inr pw)"

text \<open>
  \<open>Create\<close>, at the reading \<open>now\<close> of the clock. The id is drawn before the insert,
  so the generator has advanced also when the insert fails. With \<open>UserID\<close> zero the
  column \<open>user_id\<close> is omitted from the insert; the row then reads back with the zero
  \<open>UserID\<close>. On a nil handle the insert panics.
\<close>

definition Create ::
  "time \<Rightarrow> (string \<Rightarrow> string + string) \<Rightarrow> PasteService \<Rightarrow> paste_form \<Rightarrow>
     (error + paste) \<times> PasteService" where
  "Create now hash s p =
     (let created = now in
      case Create_expires created (form_Expires p) of
        Inl e \<Rightarrow> (Inl e, s)
      | Inr expires \<Rightarrow>
          (case Create_password hash (form_Password p) of
             Inl e \<Rightarrow> (Inl e, s)
           | Inr pw \<Rightarrow>
               (case rand_Int63 (rand_src s) of (v, g') \<Rightarrow>
                  let newPaste = \<lparr>ID = v, Title = form_Title p, Body = form_Body p,
                                   Expires = expires,
                                   DeleteAfterRead = form_DeleteAfterRead p,
                                   Privacy = form_Privacy p, Password = pw,
                                   Created = created, Syntax = form_Syntax p,
                                   UserID = form_UserID p\<rparr>;
                      s1 = s\<lparr>rand_src := g'\<rparr>
                  in (case db s of
                        None \<Rightarrow> (Inl NilPointerPanic, s1)
                      | Some d \<Rightarrow>
                          (case (if form_UserID p = 0
                                 then gorm_Create d (newPaste\<lparr>UserID := 0\<rparr>)
                                 else gorm_Create d newPaste) of
                             Inl e \<Rightarrow> (Inl (GormError e), s1)
                           | Inr d' \<Rightarrow> (Inr newPaste, s1\<lparr>db := Some d'\<rparr>))))))"

text \<open>
  \<open>Delete\<close> calls a method of the handle without a nil check; on a nil handle the
  call panics.
\<close>

definition Delete :: "PasteService \<Rightarrow> int64 \<Rightarrow> error option \<times> PasteService" where
  "Delete s i =
     (case db s of
        None \<Rightarrow> (Some NilPointerPanic, s)
      | Some d \<Rightarrow>
          (case gorm_Delete d i of
             Inl e \<Rightarrow> (Some (GormError e), s)
           | Inr d' \<Rightarrow> (None, s\<lparr>db := Some d'\<rparr>)))"

section \<open>Package http\<close>

text \<open>
  The handlers call the interface \<open>api.PasteService\<close> (\<open>Paste\<close>, \<open>Create\<close>,
  \<open>Delete\<close>), which is declared in package api; they take it as a parameter: three
  operations over a state of the service. \<open>Paste\<close> returns the error, or the pointer (nil is \<open>None\<close>);
  \<open>Create\<close> receives a pointer and may update the paste it points to.
\<close>

record 'st service =
  svc_Paste :: "int64 \<Rightarrow> 'st \<Rightarrow> (string + paste option) \<times> 'st"
  svc_Create :: "paste \<Rightarrow> 'st \<Rightarrow> (string option \<times> paste) \<times> 'st"
  svc_Delete :: "int64 \<Rightarrow> 'st \<Rightarrow> string option \<times> 'st"

text \<open>
  What a handler writes: the status code, the content, the \<open>Location\<close> header, and
  whether the handler panicked after writing.
\<close>

datatype content =
    Empty
  | Text string
  | MalformedJSONAt nat
  | InvalidValueFor string nat
  | UnknownFieldMsg string
  | JSON "paste option"

record response =
  status :: nat
  content :: content
  Location :: "string option"
  panicked :: bool

definition respond :: "nat \<Rightarrow> content \<Rightarrow> response" where
  "respond c b = \<lparr>status = c, content = b, Location = None, panicked = False\<rparr>"

definition StatusOK :: nat where "StatusOK = 200"
definition StatusCreated :: nat where "StatusCreated = 201"
definition StatusBadRequest :: nat where "StatusBadRequest = 400"
definition StatusNotFound :: nat where "StatusNotFound = 404"
definition StatusUnsupportedMediaType :: nat where "StatusUnsupportedMediaType = 415"

text \<open>
  \<open>handlePaste\<close>. \<open>decode\<close> is \<open>base62.Decode\<close>, a package that is not among the
  sources. When the service returns the pair (nil, nil), the handler writes the JSON
  \<open>null\<close> with status 200 and then dereferences the nil pointer.
\<close>

definition handlePaste ::
  "(string \<Rightarrow> string + int64) \<Rightarrow> 'st service \<Rightarrow> string \<Rightarrow> 'st \<Rightarrow> response \<times> 'st" where
  "handlePaste decode svc param st =
     (case decode param of
        Inl e \<Rightarrow> (respond StatusNotFound (Text ''paste not found''), st)
      | Inr i \<Rightarrow>
          (case svc_Paste svc i st of
             (Inl e, st1) \<Rightarrow> (respond StatusNotFound (Text ''paste not found''), st1)
           | (Inr None, st1) \<Rightarrow> ((respond StatusOK (JSON None))\<lparr>panicked := True\<rparr>, st1)
           | (Inr (Some p), st1) \<Rightarrow>
               (respond StatusOK (JSON (Some p)),
                if DeleteAfterRead p then snd (svc_Delete svc (ID p) st1) else st1)))"

definition handleDelete ::
  "(string \<Rightarrow> string + int64) \<Rightarrow> 'st service \<Rightarrow> string \<Rightarrow> 'st \<Rightarrow> response \<times> 'st" where
  "handleDelete decode svc param st =
     (case decode param of
        Inl e \<Rightarrow> (respond StatusNotFound (Text ''paste not found''), st)
      | Inr i \<Rightarrow>
          (case svc_Delete svc i st of
             (Some e, st1) \<Rightarrow> (respond StatusNotFound (Text ''paste not found''), st1)
           | (None, st1) \<Rightarrow> (respond StatusOK Empty, st1)))"

text \<open>
  The request of \<open>handleCreate\<close>: the \<open>Content-Type\<close> header (empty when absent),
  the outcome of decoding the body into an \<open>api.Paste\<close> with unknown fields disallowed
  and at most 10240 bytes read, and whether anything follows the first JSON object.
\<close>

datatype decode_error =
    SyntaxError nat
  | ErrUnexpectedEOF
  | UnmarshalTypeError string nat
  | UnknownField string
  | EOF
  | BodyTooLarge
  | OtherDecodeError string

record request =
  ContentType :: string
  decoded :: "decode_error + paste"
  trailing :: bool

definition decode_failure :: "decode_error \<Rightarrow> response" where
  "decode_failure e =
     (case e of
        SyntaxError off \<Rightarrow> respond StatusBadRequest (MalformedJSONAt off)
      | ErrUnexpectedEOF \<Rightarrow>
          respond StatusBadRequest (Text ''Request body contains badly-formed JSON'')
      | UnmarshalTypeError f off \<Rightarrow> respond StatusBadRequest (InvalidValueFor f off)
      | UnknownField f \<Rightarrow> respond StatusBadRequest (UnknownFieldMsg f)
      | EOF \<Rightarrow> respond StatusBadRequest (Text ''Request body must not be empty'')
      | BodyTooLarge \<Rightarrow>
          respond StatusBadRequest (Text ''Request body must not be larger than 10KB'')
      | OtherDecodeError m \<Rightarrow> respond StatusBadRequest (Text ''Internal Server Error''))"

text \<open>
  The paste that \<open>handleCreate\<close> builds once the body is decoded: it reseeds the
  process-wide generator from the clock, draws the id with \<open>rand.Uint64\<close>, and fills
  the struct literal. \<open>now_seed\<close> and \<open>now_created\<close> are the two readings of
  \<open>time.Now()\<close>. The fields that the literal does not name have Go's zero values.
\<close>

definition handleCreate_newPaste ::
  "(int64 \<Rightarrow> rng) \<Rightarrow> time \<Rightarrow> time \<Rightarrow> paste \<Rightarrow> paste \<times> rng" where
  "handleCreate_newPaste seeded now_seed now_created data =
     (case rand_Uint64 (seeded (UnixNano now_seed)) of (v, g') \<Rightarrow>
        (\<lparr>ID = v, Title = Title data, Body = Body data,
          Expires = zero_time,
          DeleteAfterRead = DeleteAfterRead data,
          Privacy = [], Password = [],
          Created = now_created, Syntax = Syntax data, UserID = 0\<rparr>, g'))"

text \<open>
  \<open>handleCreate\<close>. \<open>url\<close> is the method \<open>Paste.URL\<close> of package api. The state is
  the generator and the state of the service.
\<close>

definition handleCreate ::
  "(int64 \<Rightarrow> rng) \<Rightarrow> time \<Rightarrow> time \<Rightarrow> (paste \<Rightarrow> string) \<Rightarrow> 'st service \<Rightarrow> request \<Rightarrow>
     rng \<times> 'st \<Rightarrow> response \<times> rng \<times> 'st" where
  "handleCreate seeded now_seed now_created url svc req gst =
     (case gst of (g, st) \<Rightarrow>
      if ContentType req \<noteq> [] \<and> ContentType req \<noteq> ''application/json'' then
        (respond StatusUnsupportedMediaType
           (Text ''wrong Content-Type header, expect application/json''), g, st)
      else
        (case decoded req of
           Inl e \<Rightarrow> (decode_failure e, g, st)
         | Inr data \<Rightarrow>
             if trailing req then
               (respond StatusBadRequest
                  (Text ''Request body must only contain a single JSON object''), g, st)
             else
               (case handleCreate_newPaste seeded now_seed now_created data of (p, g') \<Rightarrow>
                  (case svc_Create svc p st of
                     ((Some e, p'), st1) \<Rightarrow>
                       (respond StatusBadRequest (Text ''failed to create paste''), g', st1)
                   | ((None, p'), st1) \<Rightarrow>
                       ((respond StatusCreated (JSON (Some p')))\<lparr>Location := Some (url p')\<rparr>,
                        g', st1)))))"

section \<open>Notions of the spec\<close>

text \<open>
  The spec's notion of an expired paste: its expiration is not the never-sentinel and
  lies before the instant of the fetch.
\<close>

definition expired_at :: "paste \<Rightarrow> time \<Rightarrow> bool" where
  "expired_at p now = (Expires p \<noteq> zero_time \<and> Expires p < now)"

text \<open>
  The spec's grammar of a duration expression, \<open>^[0-9]+[mhdwMy]$\<close>: a non-empty run
  of decimal digits followed by exactly one unit character. \<open>decimal\<close> is the magnitude
  that the digits denote.
\<close>

definition duration_expr :: "string \<Rightarrow> bool" where
  "duration_expr e =
     (e \<noteq> [] \<and> butlast e \<noteq> [] \<and> list_all isDigit (butlast e) \<and> last e \<in> set ''mhdwMy'')"





section \<open>Sample data\<close>

text \<open>
  An in-memory implementation of the interface of the handlers, a decoder of the single
  identifier \<open>7\<close>, two seeding functions, a stand-in for the bcrypt hash, and a few
  stores, forms and requests: the handlers and the service are run on them at concrete
  inputs. \<open>t42\<close> is the instant 42 nanoseconds after 1970-01-01 00:00:00 UTC.
\<close>

definition memory_service :: "(int64 \<rightharpoonup> paste) service" where
  "memory_service =
     \<lparr>svc_Paste = (\<lambda>i st. (case st i of None \<Rightarrow> Inl ''paste not found''
                                | Some p \<Rightarrow> Inr (Some p), st)),
      svc_Create = (\<lambda>p st. ((None, p), st(ID p \<mapsto> p))),
      svc_Delete = (\<lambda>i st. (case st i of None \<Rightarrow> (Some ''paste not found'', st)
                                | Some p \<Rightarrow> (None, st(i := None))))\<rparr>"

definition decode_7 :: "string \<Rightarrow> string + int64" where
  "decode_7 x = (if x = ''7'' then Inr 7 else Inl ''invalid identifier'')"

definition old_paste :: paste where
  "old_paste = \<lparr>ID = 7, Title = ''t'', Body = ''b'', Expires = 5, DeleteAfterRead = False,
     Privacy = [], Password = ''$2a$10$N9qo8uLOickgx2ZMRZoMye'', Created = 1, Syntax = [],
     UserID = 0\<rparr>"

definition old_store :: PasteService where
  "old_store = \<lparr>db = Some \<lparr>rows = [7 \<mapsto> old_paste], fault = None\<rparr>, rand_src = (\<lambda>n. 0)\<rparr>"

definition empty_store :: PasteService where
  "empty_store = \<lparr>db = Some \<lparr>rows = Map.empty, fault = None\<rparr>, rand_src = (\<lambda>n. 0)\<rparr>"

definition sample_hash :: "string \<Rightarrow> string + string" where
  "sample_hash pw = Inr (''$2a$10$'' @ pw)"

definition plain_form :: paste_form where
  "plain_form = \<lparr>form_Title = ''t'', form_Body = ''b'', form_Expires = ''never'',
     form_DeleteAfterRead = False, form_Privacy = [], form_Password = [], form_Syntax = [],
     form_UserID = 0\<rparr>"

definition fresh_store :: PasteService where
  "fresh_store = \<lparr>db = Some \<lparr>rows = Map.empty, fault = None\<rparr>, rand_src = (\<lambda>n. 42)\<rparr>"

definition dup_store :: PasteService where
  "dup_store = \<lparr>db = Some \<lparr>rows = [7 \<mapsto> old_paste], fault = None\<rparr>, rand_src = (\<lambda>n. 7)\<rparr>"

definition blank_form :: paste_form where
  "blank_form = plain_form\<lparr>form_Title := [], form_Body := []\<rparr>"

definition seeded_by :: "int64 \<Rightarrow> rng" where
  "seeded_by sd = (\<lambda>n. sd + of_nat n)"

definition high_seeded :: "int64 \<Rightarrow> rng" where
  "high_seeded sd = (\<lambda>n. sd OR 0x8000000000000000)"

definition t42 :: time where
  "t42 = 62135596800000000042"

definition json_request :: request where
  "json_request = \<lparr>ContentType = ''application/json'', decoded = Inr old_paste,
     trailing = False\<rparr>"

definition sample_url :: "paste \<Rightarrow> string" where
  "sample_url p = ''/paste/x''"

section \<open>The calendar\<close>




















section \<open>Parsing the magnitude\<close>



lemma ParseUint_loop_Inr_digits:
  "ParseUint_loop n ds = Inr v \<Longrightarrow> list_all isDigit ds"
  by (induction ds arbitrary: n) (auto split: if_splits)



lemma Atoi_Inr_digits:
  assumes "Atoi ds = Inr v" "ds = [] \<or> (hd ds \<noteq> CHR ''+'' \<and> hd ds \<noteq> CHR ''-'')"
  shows "ds \<noteq> [] \<and> list_all isDigit ds"
proof (cases ds)
  case Nil
  with assms(1) show ?thesis by (simp add: Atoi_def ParseInt_def)
next
  case (Cons c cs)
  with assms(2) have c: "c \<noteq> CHR ''+''" "c \<noteq> CHR ''-''" by simp_all
  from assms(1) obtain un where "ParseUint ds = Inr un"
    using c by (auto simp: Atoi_def ParseInt_def Cons split: sum.splits)
  then have "list_all isDigit ds"
    using ParseUint_loop_Inr_digits[of 0 ds un] by (simp add: ParseUint_def Cons)
  then show ?thesis by (simp add: Cons)
qed

section \<open>Computing the expiration\<close>







lemma hd_butlast_long: "1 < length xs \<Longrightarrow> hd (butlast xs) = hd xs"
  by (cases xs) auto

lemma Create_expires_rejects:
  assumes "e \<noteq> ''never''" "1 < length e" "\<not> duration_expr e"
    "hd e \<noteq> CHR ''+''" "hd e \<noteq> CHR ''-''"
  shows "(\<exists>err. Create_expires t e = Inl (WrongDurationFormat e err))
     \<or> Create_expires t e = Inl (UnknownDurationFormat e)"
proof (cases "Atoi (butlast e)")
  case (Inl err)
  with assms(1,2) show ?thesis by (simp add: Create_expires_def)
next
  case (Inr d)
  have "hd (butlast e) \<noteq> CHR ''+'' \<and> hd (butlast e) \<noteq> CHR ''-''"
    using assms(2,4,5) by (simp add: hd_butlast_long)
  with Inr have "butlast e \<noteq> [] \<and> list_all isDigit (butlast e)"
    by (intro Atoi_Inr_digits) simp_all
  with assms(2,3) have "last e \<notin> set ''mhdwMy''"
    by (auto simp: duration_expr_def)
  with Inr assms(1,2) show ?thesis by (simp add: Create_expires_def)
qed

section \<open>Creating\<close>

lemma Create_unfold:
  assumes "Create_expires now (form_Expires p) = Inr x"
    "Create_password hash (form_Password p) = Inr pw" "db s = Some d"
  shows "Create now hash s p =
     (let v = fst (rand_Int63 (rand_src s));
          newPaste = \<lparr>ID = v, Title = form_Title p, Body = form_Body p, Expires = x,
                       DeleteAfterRead = form_DeleteAfterRead p, Privacy = form_Privacy p,
                       Password = pw, Created = now, Syntax = form_Syntax p,
                       UserID = form_UserID p\<rparr>;
          s1 = s\<lparr>rand_src := snd (rand_Int63 (rand_src s))\<rparr>
      in case gorm_Create d newPaste of
           Inl e \<Rightarrow> (Inl (GormError e), s1)
         | Inr d' \<Rightarrow> (Inr newPaste, s1\<lparr>db := Some d'\<rparr>))"
  using assms by (cases "form_UserID p = 0") (simp_all add: Create_def Let_def case_prod_beta)

lemma Create_Inr_fields:
  assumes "fst (Create now hash s p) = Inr q"
  shows "ID q = fst (rand_Int63 (rand_src s)) \<and> Created q = now
     \<and> Create_expires now (form_Expires p) = Inr (Expires q)
     \<and> Title q = form_Title p \<and> Body q = form_Body p
     \<and> rand_src (snd (Create now hash s p)) = snd (rand_Int63 (rand_src s))"
  using assms
  by (auto simp: Create_def Let_def case_prod_beta split: sum.splits option.splits if_splits)

lemma Int63_bound: "unat (fst (rand_Int63 g)) < 2 ^ 63"
proof -
  have "g 0 AND rngMask \<le> rngMask" by (rule word_and_le1)
  then have "unat (g 0 AND rngMask) \<le> unat rngMask" by (simp add: word_le_nat_alt)
  also have "unat rngMask < 2 ^ 63" by (simp add: rngMask_def)
  finally show ?thesis by (simp add: rand_Int63_def rand_Uint64_def)
qed

lemma UnixNano_t42: "UnixNano t42 = 42"
  by (simp add: UnixNano_def t42_def unixToInternal_def)

lemma handleCreate_created:
  assumes "status (fst (handleCreate seeded t1 t2 url svc req (g, st))) = StatusCreated"
  shows "\<exists>data. decoded req = Inr data
     \<and> fst (fst (svc_Create svc (fst (handleCreate_newPaste seeded t1 t2 data)) st)) = None
     \<and> snd (snd (handleCreate seeded t1 t2 url svc req (g, st)))
         = snd (svc_Create svc (fst (handleCreate_newPaste seeded t1 t2 data)) st)"
  using assms
  by (auto simp: handleCreate_def respond_def decode_failure_def StatusCreated_def
      StatusBadRequest_def StatusUnsupportedMediaType_def case_prod_beta
      split: if_splits sum.splits decode_error.splits option.splits)

lemma Create_id_63_bits:
  assumes "fst (Create now hash s p) = Inr q"
  shows "unat (ID q) < 2 ^ 63"
  using Create_Inr_fields[OF assms] Int63_bound[of "rand_src s"] by simp

section \<open>Reading and deleting\<close>

lemma Get_working: "db s = Some d \<Longrightarrow> fault d = None \<Longrightarrow> Get s i = Inr (rows d i)"
  by (simp add: Get_def gorm_First_def split: option.splits)

lemma handlePaste_found:
  "decode x = Inr i \<Longrightarrow> svc_Paste svc i st = (Inr (Some p), st1) \<Longrightarrow>
   fst (handlePaste decode svc x st) = respond StatusOK (JSON (Some p))"
  by (simp add: handlePaste_def)

section \<open>The claims\<close>

text \<open>
  Claim C1 says that a fetch of a paste whose expiration has passed returns not-found.
  Neither \<open>Get\<close> nor \<open>handlePaste\<close> looks at \<open>Expires\<close>: on the store that holds
  \<open>old_paste\<close>, which expired at instant 5, a fetch at instant 10 returns the paste and
  the handler does not answer 404.
\<close>

theorem C1_counterexample:
  "expired_at old_paste 10 \<and> Get old_store 7 \<noteq> Inr None
   \<and> status (fst (handlePaste decode_7 memory_service ''7'' [7 \<mapsto> old_paste]))
       \<noteq> StatusNotFound"
  by (simp add: expired_at_def old_paste_def old_store_def Get_def gorm_First_def zero_time_def
      handlePaste_def decode_7_def memory_service_def respond_def StatusOK_def
      StatusNotFound_def)

text \<open>
  Claim C1, amended: on a working database \<open>Get\<close> returns exactly the row stored under
  the id, whatever its expiration, and not-found only when there is no such row; and
  \<open>handlePaste\<close> answers 200 whenever the service returns a paste.
\<close>

theorem Get_returns_row_whatever_expiration:
  "(db s = Some d \<and> fault d = None \<longrightarrow> Get s i = Inr (rows d i))
   \<and> (decode x = Inr i \<and> svc_Paste svc i st = (Inr (Some p), st1) \<longrightarrow>
        status (fst (handlePaste decode svc x st)) = StatusOK)"
  by (simp add: Get_working handlePaste_found respond_def)

theorem Get_returns_row_whatever_expiration_witness:
  "expired_at old_paste 10 \<and> Get old_store 7 = Inr (Some old_paste)
   \<and> status (fst (handlePaste decode_7 memory_service ''7'' [7 \<mapsto> old_paste])) = StatusOK"
  using Get_returns_row_whatever_expiration[of old_store
      "\<lparr>rows = [7 \<mapsto> old_paste], fault = None\<rparr>" 7
      decode_7 "''7''" memory_service "[7 \<mapsto> old_paste]" old_paste "[7 \<mapsto> old_paste]"]
  by (simp add: expired_at_def old_paste_def old_store_def zero_time_def decode_7_def
      memory_service_def)

text \<open>
  Claim C2 says that reading a paste with a non-empty password hash fails with
  Unauthorized unless the supplied password verifies. \<open>Get\<close> takes no password and
  \<open>handlePaste\<close> reads none: the protected \<open>old_paste\<close> is returned, hash included.
\<close>

theorem C2_counterexample:
  "Password old_paste \<noteq> [] \<and> Get old_store 7 = Inr (Some old_paste)
   \<and> fst (handlePaste decode_7 memory_service ''7'' [7 \<mapsto> old_paste])
       = respond StatusOK (JSON (Some old_paste))"
  by (simp add: old_paste_def old_store_def Get_def gorm_First_def
      handlePaste_def decode_7_def memory_service_def)

text \<open>
  Claim C2, amended: a read takes no password and verifies none. On a working database
  \<open>Get\<close> returns every stored paste with a non-empty password hash as it is stored,
  and \<open>handlePaste\<close> writes the paste that the service returns.
\<close>

theorem Get_hands_out_protected_paste:
  assumes "db s = Some d" "fault d = None" "rows d i = Some p" "Password p \<noteq> []"
  shows "Get s i = Inr (Some p)
     \<and> (decode x = Inr i \<and> svc_Paste svc i st = (Inr (Some p), st1) \<longrightarrow>
          content (fst (handlePaste decode svc x st)) = JSON (Some p))"
  using assms by (simp add: Get_working handlePaste_found respond_def)

theorem Get_hands_out_protected_paste_witness:
  "Password old_paste \<noteq> [] \<and> Get old_store 7 = Inr (Some old_paste)
   \<and> content (fst (handlePaste decode_7 memory_service ''7'' [7 \<mapsto> old_paste]))
       = JSON (Some old_paste)"
  using Get_hands_out_protected_paste[of old_store
      "\<lparr>rows = [7 \<mapsto> old_paste], fault = None\<rparr>" 7
      old_paste decode_7 "''7''" memory_service "[7 \<mapsto> old_paste]" "[7 \<mapsto> old_paste]"]
  by (simp add: old_paste_def old_store_def decode_7_def memory_service_def)

text \<open>
  Claim C3 says that \<open>Create\<close> retries with a fresh id when the insert meets a
  duplicate identifier, and never returns that error. \<open>Create\<close> draws one id and
  inserts once: on a store that already holds the id drawn, the duplicate-key error of
  the insert is what \<open>Create\<close> returns.
\<close>

theorem C3_counterexample:
  "fst (Create 100 sample_hash dup_store plain_form) = Inl (GormError ErrDuplicatedKey)"
  by (simp add: Create_def Create_expires_def Create_password_def dup_store_def plain_form_def
      rand_Int63_def rand_Uint64_def rngMask_def gorm_Create_def Let_def)

text \<open>
  Claim C3, amended: \<open>Create\<close> makes a single insert attempt with the single id it
  draws. When the expiration and the password are accepted and the working database
  already holds a row under that id, \<open>Create\<close> returns the duplicate-key error of the
  insert as it is, stores nothing, and has advanced the generator by one draw.
\<close>

theorem Create_single_insert_attempt:
  assumes "Create_expires now (form_Expires p) = Inr x"
    "Create_password hash (form_Password p) = Inr pw"
    "db s = Some d" "fault d = None" "rows d (fst (rand_Int63 (rand_src s))) = Some q"
  shows "Create now hash s p
     = (Inl (GormError ErrDuplicatedKey), s\<lparr>rand_src := snd (rand_Int63 (rand_src s))\<rparr>)"
  using assms by (simp add: Create_unfold[OF assms(1,2,3)] gorm_Create_def Let_def)

theorem Create_single_insert_attempt_witness:
  "Create 100 sample_hash dup_store plain_form
     = (Inl (GormError ErrDuplicatedKey), dup_store\<lparr>rand_src := (\<lambda>n. 7)\<rparr>)"
  using Create_single_insert_attempt[of 100 plain_form zero_time sample_hash "[]" dup_store
      "\<lparr>rows = [7 \<mapsto> old_paste], fault = None\<rparr>" old_paste]
  by (simp add: Create_expires_def Create_password_def dup_store_def plain_form_def
      rand_Int63_def rand_Uint64_def rngMask_def)

text \<open>
  Claim C4 says that every expiration expression other than \<open>never\<close> that does not
  match the grammar makes \<open>Create\<close> fail, a single character included. The guard of
  \<open>Create\<close> sends every expression of at most one byte to the zero instant, and
  \<open>Atoi\<close> accepts a sign: \<open>m\<close> creates a paste that never expires, and \<open>-5m\<close>
  yields an expiration five minutes before the creation.
\<close>

theorem C4_counterexample:
  "\<not> duration_expr ''m'' \<and> ''m'' \<noteq> ''never''
   \<and> fst (Create 100 sample_hash fresh_store (plain_form\<lparr>form_Expires := ''m''\<rparr>))
       = Inr \<lparr>ID = 42, Title = ''t'', Body = ''b'', Expires = zero_time,
              DeleteAfterRead = False, Privacy = [], Password = [], Created = 100,
              Syntax = [], UserID = 0\<rparr>
   \<and> \<not> duration_expr ''-5m'' \<and> ''-5m'' \<noteq> ''never''
   \<and> Create_expires 100 ''-5m'' = Inr (- 299999999900)"
  by (simp add: duration_expr_def isDigit_def Create_def Create_expires_def Create_password_def
      fresh_store_def plain_form_def rand_Int63_def rand_Uint64_def rngMask_def gorm_Create_def
      Let_def Atoi_def ParseInt_def ParseUint_def digitVal_def maxUint64_def Add_def Minute_def)

text \<open>
  Claim C4, amended: for every expiration expression of more than one byte, other than
  \<open>never\<close>, that does not begin with a sign and does not match the grammar,
  \<open>Create\<close> fails with an error that names the expression (wrong duration format
  when the magnitude does not parse, unknown duration format when the unit is not one of
  the six), and neither draws an id nor stores anything.
\<close>

theorem invalid_expiration_rejected:
  assumes "form_Expires p \<noteq> ''never''" "1 < length (form_Expires p)"
    "\<not> duration_expr (form_Expires p)"
    "hd (form_Expires p) \<noteq> CHR ''+''" "hd (form_Expires p) \<noteq> CHR ''-''"
  shows "(\<exists>err. Create now hash s p = (Inl (WrongDurationFormat (form_Expires p) err), s))
     \<or> Create now hash s p = (Inl (UnknownDurationFormat (form_Expires p)), s)"
  using Create_expires_rejects[OF assms, of now] by (auto simp: Create_def)

theorem invalid_expiration_rejected_witness:
  "Create 100 sample_hash fresh_store (plain_form\<lparr>form_Expires := ''5x''\<rparr>)
     = (Inl (UnknownDurationFormat ''5x''), fresh_store)
   \<and> Create 100 sample_hash fresh_store (plain_form\<lparr>form_Expires := ''1.5h''\<rparr>)
     = (Inl (WrongDurationFormat ''1.5h'' ErrSyntax), fresh_store)"
  using invalid_expiration_rejected[where p = "plain_form\<lparr>form_Expires := ''5x''\<rparr>"
      and now = 100 and hash = sample_hash and s = fresh_store]
    invalid_expiration_rejected[where p = "plain_form\<lparr>form_Expires := ''1.5h''\<rparr>"
      and now = 100 and hash = sample_hash and s = fresh_store]
  by (simp add: duration_expr_def isDigit_def plain_form_def Create_def Create_expires_def
      Atoi_def ParseInt_def ParseUint_def digitVal_def maxUint64_def)




text \<open>
  Claim C6 says that every id assigned at creation is a non-negative integer of 63 bits,
  on every path that allocates one. \<open>PasteService.Create\<close> draws the id with
  \<open>rand.Int63\<close> (lemma \<open>Create_id_63_bits\<close>), but \<open>handleCreate\<close> draws it with
  \<open>rand.Uint64\<close>: with a generator whose first output after seeding has the top bit
  set, the request is accepted and the paste is stored under an id that is not below
  \<open>2 ^ 63\<close>.
\<close>

theorem handleCreate_id_beyond_63_bits:
  "ID (fst (handleCreate_newPaste high_seeded t42 t42 old_paste)) = 0x800000000000002A
   \<and> \<not> unat (ID (fst (handleCreate_newPaste high_seeded t42 t42 old_paste))) < 2 ^ 63
   \<and> status (fst (handleCreate high_seeded t42 t42 sample_url memory_service json_request
       (\<lambda>n. 0, Map.empty))) = StatusCreated
   \<and> map_option ID (snd (snd (handleCreate high_seeded t42 t42 sample_url memory_service
       json_request (\<lambda>n. 0, Map.empty))) 0x800000000000002A) = Some 0x800000000000002A"
  by (simp add: handleCreate_def handleCreate_newPaste_def json_request_def memory_service_def
      high_seeded_def UnixNano_t42 rand_Uint64_def respond_def)

text \<open>
  Claim C7 says that \<open>Delete\<close> fails with NotFound when no paste has the id. On the
  empty store the id 7 is not found, and \<open>Delete\<close> returns no error.
\<close>

theorem C7_counterexample:
  "Get empty_store 7 = Inr None \<and> fst (Delete empty_store 7) = None"
  by (simp add: empty_store_def Get_def gorm_First_def Delete_def gorm_Delete_def)

text \<open>
  Claim C7, amended: on a working database \<open>Delete\<close> returns no error whether or not
  a paste with the id exists; afterwards no paste has the id, and repeating the delete
  returns no error and changes nothing.
\<close>

theorem Delete_succeeds_present_or_absent:
  assumes "db s = Some d" "fault d = None"
  shows "fst (Delete s i) = None
     \<and> db (snd (Delete s i)) = Some (d\<lparr>rows := (rows d)(i := None)\<rparr>)
     \<and> Get (snd (Delete s i)) i = Inr None
     \<and> Delete (snd (Delete s i)) i = (None, snd (Delete s i))"
  using assms by (simp add: Delete_def gorm_Delete_def Get_def gorm_First_def)

theorem Delete_succeeds_present_or_absent_witness:
  "fst (Delete old_store 7) = None
   \<and> db (snd (Delete old_store 7)) = Some \<lparr>rows = Map.empty, fault = None\<rparr>
   \<and> Get (snd (Delete old_store 7)) 7 = Inr None
   \<and> Delete (snd (Delete old_store 7)) 7 = (None, snd (Delete old_store 7))"
  using Delete_succeeds_present_or_absent[of old_store
      "\<lparr>rows = [7 \<mapsto> old_paste], fault = None\<rparr>" 7]
  by (simp add: old_store_def)

text \<open>
  Claim C8 says that \<open>Create\<close> returns an error for a form whose title and body are
  both empty. \<open>Create\<close> reads neither for validation: the blank form is stored.
\<close>

theorem C8_counterexample:
  "form_Title blank_form = [] \<and> form_Body blank_form = []
   \<and> fst (Create 100 sample_hash fresh_store blank_form)
       = Inr \<lparr>ID = 42, Title = [], Body = [], Expires = zero_time, DeleteAfterRead = False,
              Privacy = [], Password = [], Created = 100, Syntax = [], UserID = 0\<rparr>
   \<and> Get (snd (Create 100 sample_hash fresh_store blank_form)) 42
       = Inr (Some \<lparr>ID = 42, Title = [], Body = [], Expires = zero_time,
              DeleteAfterRead = False, Privacy = [], Password = [], Created = 100,
              Syntax = [], UserID = 0\<rparr>)"
  by (simp add: Create_def Create_expires_def Create_password_def fresh_store_def
      blank_form_def plain_form_def rand_Int63_def rand_Uint64_def rngMask_def gorm_Create_def
      Let_def Get_def gorm_First_def)

text \<open>
  Claim C8, amended: \<open>Create\<close> does not validate the title or the body. Replacing
  them in a form by any title and body, both empty included, changes neither whether
  \<open>Create\<close> fails nor its error, and changes the paste it returns in these two fields
  only.
\<close>

theorem Create_ignores_title_and_body:
  "fst (Create now hash s (p\<lparr>form_Title := t, form_Body := b\<rparr>))
     = map_sum id (\<lambda>q. q\<lparr>Title := t, Body := b\<rparr>) (fst (Create now hash s p))"
  by (simp add: Create_def Let_def gorm_Create_def case_prod_beta
      split: sum.splits option.splits)

theorem Create_ignores_title_and_body_witness:
  "fst (Create 100 sample_hash fresh_store (plain_form\<lparr>form_Title := [], form_Body := []\<rparr>))
     = Inr \<lparr>ID = 42, Title = [], Body = [], Expires = zero_time, DeleteAfterRead = False,
            Privacy = [], Password = [], Created = 100, Syntax = [], UserID = 0\<rparr>"
  using Create_ignores_title_and_body[where now = 100 and hash = sample_hash
      and s = fresh_store and p = plain_form and t = "[]" and b = "[]"]
  by (simp add: Create_def Create_expires_def Create_password_def fresh_store_def
      plain_form_def rand_Int63_def rand_Uint64_def rngMask_def gorm_Create_def Let_def)

text \<open>
  Claim C9: for every request that \<open>handleCreate\<close> accepts (status 201), the paste
  handed to the service for storing is the one built from the decoded body, the service
  stored it without error, and it has the zero expiration, no password, no privacy value
  and no owner, with the title, body, delete-after-read flag and syntax of the request;
  the id, expiration, privacy, password, creation instant and owner supplied in the body
  have no influence on it.
\<close>

theorem handleCreate_takes_four_fields:
  "(status (fst (handleCreate seeded t1 t2 url svc req (g, st))) = StatusCreated \<longrightarrow>
      (\<exists>data p. decoded req = Inr data \<and> p = fst (handleCreate_newPaste seeded t1 t2 data)
         \<and> fst (fst (svc_Create svc p st)) = None
         \<and> snd (snd (handleCreate seeded t1 t2 url svc req (g, st))) = snd (svc_Create svc p st)
         \<and> Expires p = zero_time \<and> Password p = [] \<and> Privacy p = [] \<and> UserID p = 0
         \<and> Title p = Title data \<and> Body p = Body data
         \<and> DeleteAfterRead p = DeleteAfterRead data \<and> Syntax p = Syntax data))
   \<and> handleCreate_newPaste seeded t1 t2
        (data\<lparr>ID := i, Expires := e, Privacy := pr, Password := pw, Created := c, UserID := u\<rparr>)
      = handleCreate_newPaste seeded t1 t2 data"
proof (intro conjI impI)
  assume "status (fst (handleCreate seeded t1 t2 url svc req (g, st))) = StatusCreated"
  from handleCreate_created[OF this] obtain data where
    d: "decoded req = Inr data"
      "fst (fst (svc_Create svc (fst (handleCreate_newPaste seeded t1 t2 data)) st)) = None"
      "snd (snd (handleCreate seeded t1 t2 url svc req (g, st)))
         = snd (svc_Create svc (fst (handleCreate_newPaste seeded t1 t2 data)) st)"
    by blast
  define p where "p = fst (handleCreate_newPaste seeded t1 t2 data)"
  have "Expires p = zero_time \<and> Password p = [] \<and> Privacy p = [] \<and> UserID p = 0
         \<and> Title p = Title data \<and> Body p = Body data
         \<and> DeleteAfterRead p = DeleteAfterRead data \<and> Syntax p = Syntax data"
    by (simp add: p_def handleCreate_newPaste_def case_prod_beta)
  with d show "\<exists>data p. decoded req = Inr data \<and> p = fst (handleCreate_newPaste seeded t1 t2 data)
         \<and> fst (fst (svc_Create svc p st)) = None
         \<and> snd (snd (handleCreate seeded t1 t2 url svc req (g, st))) = snd (svc_Create svc p st)
         \<and> Expires p = zero_time \<and> Password p = [] \<and> Privacy p = [] \<and> UserID p = 0
         \<and> Title p = Title data \<and> Body p = Body data
         \<and> DeleteAfterRead p = DeleteAfterRead data \<and> Syntax p = Syntax data"
    unfolding p_def by blast
next
  show "handleCreate_newPaste seeded t1 t2
        (data\<lparr>ID := i, Expires := e, Privacy := pr, Password := pw, Created := c, UserID := u\<rparr>)
      = handleCreate_newPaste seeded t1 t2 data"
    by (simp add: handleCreate_newPaste_def)
qed

theorem handleCreate_takes_four_fields_witness:
  "Expires old_paste \<noteq> zero_time \<and> Password old_paste \<noteq> []
   \<and> status (fst (handleCreate seeded_by t42 t42 sample_url memory_service json_request
       (\<lambda>n. 0, Map.empty))) = StatusCreated
   \<and> snd (snd (handleCreate seeded_by t42 t42 sample_url memory_service json_request
       (\<lambda>n. 0, Map.empty))) 42
      = Some \<lparr>ID = 42, Title = ''t'', Body = ''b'', Expires = zero_time,
              DeleteAfterRead = False, Privacy = [], Password = [], Created = t42,
              Syntax = [], UserID = 0\<rparr>"
  using handleCreate_takes_four_fields[where seeded = seeded_by and ?t1.0 = t42 and ?t2.0 = t42
      and url = sample_url and svc = memory_service and req = json_request
      and g = "\<lambda>n. 0" and st = Map.empty and data = old_paste]
  by (simp add: handleCreate_def handleCreate_newPaste_def json_request_def memory_service_def
      seeded_by_def UnixNano_t42 rand_Uint64_def respond_def old_paste_def zero_time_def)

text \<open>
  Claim C10: the id is a function of the instant that seeds the generator. The paste
  that \<open>handleCreate\<close> builds has the same id whenever the seeding instant is the
  same, whatever the request, the state of the generator before and the second reading
  of the clock, so two accepted requests that observe the same seeding instant hand
  pastes with identical ids to the service. \<open>New\<close> leaves the generator in a state that
  depends on the seeding instant only, every successful \<open>Create\<close> returns the next
  output of the generator (masked to 63 bits) as the id and advances the generator by
  one step, so the first \<open>Create\<close> after \<open>New\<close> returns the same id in any two runs in
  which \<open>New\<close> observed the same instant. The calls are taken one after the other: no
  other goroutine draws between the seeding and the draw.
\<close>

theorem id_determined_by_seed_instant:
  "ID (fst (handleCreate_newPaste seeded t t1 data))
     = ID (fst (handleCreate_newPaste seeded t t2 data'))
   \<and> (status (fst (handleCreate seeded t t1 url svc req (g, st))) = StatusCreated
      \<and> status (fst (handleCreate seeded t t2 url' svc' req' (g', st'))) = StatusCreated
      \<longrightarrow> (\<exists>p p'. fst (fst (svc_Create svc p st)) = None
            \<and> snd (snd (handleCreate seeded t t1 url svc req (g, st))) = snd (svc_Create svc p st)
            \<and> fst (fst (svc_Create svc' p' st')) = None
            \<and> snd (snd (handleCreate seeded t t2 url' svc' req' (g', st')))
                = snd (svc_Create svc' p' st')
            \<and> ID p = ID p'))
   \<and> rand_src (New seeded t conn) = rand_src (New seeded t conn')
   \<and> (fst (Create now hash s p) = Inr q
      \<longrightarrow> ID q = fst (rand_Int63 (rand_src s))
          \<and> rand_src (snd (Create now hash s p)) = snd (rand_Int63 (rand_src s)))
   \<and> (fst (Create now hash (New seeded t conn) p) = Inr q
      \<and> fst (Create now' hash' (New seeded t conn') p') = Inr q'
      \<longrightarrow> ID q = ID q')"
proof (intro conjI impI)
  show e: "ID (fst (handleCreate_newPaste seeded t t1 data))
     = ID (fst (handleCreate_newPaste seeded t t2 data'))" for t1 t2 data data'
    by (simp add: handleCreate_newPaste_def case_prod_beta)
  show "rand_src (New seeded t conn) = rand_src (New seeded t conn')"
    by (simp add: New_def)
  show "ID q = fst (rand_Int63 (rand_src s))"
    "rand_src (snd (Create now hash s p)) = snd (rand_Int63 (rand_src s))"
    if "fst (Create now hash s p) = Inr q"
    using Create_Inr_fields[OF that] by simp_all
  show "ID q = ID q'"
    if "fst (Create now hash (New seeded t conn) p) = Inr q
      \<and> fst (Create now' hash' (New seeded t conn') p') = Inr q'"
  proof -
    from that have "ID q = fst (rand_Int63 (rand_src (New seeded t conn)))"
      "ID q' = fst (rand_Int63 (rand_src (New seeded t conn')))"
      using Create_Inr_fields[of now hash "New seeded t conn" p q]
        Create_Inr_fields[of now' hash' "New seeded t conn'" p' q'] by simp_all
    then show ?thesis by (simp add: New_def)
  qed
  assume a: "status (fst (handleCreate seeded t t1 url svc req (g, st))) = StatusCreated
      \<and> status (fst (handleCreate seeded t t2 url' svc' req' (g', st'))) = StatusCreated"
  from a handleCreate_created[of seeded t t1 url svc req g st] obtain d1 where
    "fst (fst (svc_Create svc (fst (handleCreate_newPaste seeded t t1 d1)) st)) = None"
    "snd (snd (handleCreate seeded t t1 url svc req (g, st)))
       = snd (svc_Create svc (fst (handleCreate_newPaste seeded t t1 d1)) st)"
    by blast
  moreover from a handleCreate_created[of seeded t t2 url' svc' req' g' st'] obtain d2 where
    "fst (fst (svc_Create svc' (fst (handleCreate_newPaste seeded t t2 d2)) st')) = None"
    "snd (snd (handleCreate seeded t t2 url' svc' req' (g', st')))
       = snd (svc_Create svc' (fst (handleCreate_newPaste seeded t t2 d2)) st')"
    by blast
  ultimately show "\<exists>p p'. fst (fst (svc_Create svc p st)) = None
            \<and> snd (snd (handleCreate seeded t t1 url svc req (g, st))) = snd (svc_Create svc p st)
            \<and> fst (fst (svc_Create svc' p' st')) = None
            \<and> snd (snd (handleCreate seeded t t2 url' svc' req' (g', st')))
                = snd (svc_Create svc' p' st')
            \<and> ID p = ID p'"
    using e[of t1 d1 t2 d2] by blast
qed

theorem id_determined_by_seed_instant_witness:
  "fst (Create 100 sample_hash (New seeded_by t42 (db fresh_store)) plain_form)
     = Inr \<lparr>ID = 42, Title = ''t'', Body = ''b'', Expires = zero_time,
            DeleteAfterRead = False, Privacy = [], Password = [], Created = 100,
            Syntax = [], UserID = 0\<rparr>
   \<and> fst (Create 200 sample_hash (New seeded_by t42 (db empty_store)) blank_form)
     = Inr \<lparr>ID = 42, Title = [], Body = [], Expires = zero_time,
            DeleteAfterRead = False, Privacy = [], Password = [], Created = 200,
            Syntax = [], UserID = 0\<rparr>
   \<and> status (fst (handleCreate seeded_by t42 100 sample_url memory_service json_request
       (\<lambda>n. 0, Map.empty))) = StatusCreated
   \<and> status (fst (handleCreate seeded_by t42 200 sample_url memory_service json_request
       (\<lambda>n. 5, [7 \<mapsto> old_paste]))) = StatusCreated
   \<and> map_option ID (snd (snd (handleCreate seeded_by t42 100 sample_url memory_service
       json_request (\<lambda>n. 0, Map.empty))) 42) = Some 42
   \<and> map_option ID (snd (snd (handleCreate seeded_by t42 200 sample_url memory_service
       json_request (\<lambda>n. 5, [7 \<mapsto> old_paste]))) 42) = Some 42"
  using id_determined_by_seed_instant[where seeded = seeded_by and t = t42 and ?t1.0 = 100
      and ?t2.0 = 200 and url = sample_url and url' = sample_url and svc = memory_service
      and svc' = memory_service and req = json_request and req' = json_request
      and g = "\<lambda>n. 0" and g' = "\<lambda>n. 5" and st = Map.empty and st' = "[7 \<mapsto> old_paste]"
      and now = 100 and now' = 200 and hash = sample_hash and hash' = sample_hash
      and s = "New seeded_by t42 (db fresh_store)"
      and conn = "db fresh_store" and conn' = "db empty_store" and p = plain_form
      and p' = blank_form
      and q = "\<lparr>ID = 42, Title = ''t'', Body = ''b'', Expires = zero_time,
            DeleteAfterRead = False, Privacy = [], Password = [], Created = 100,
            Syntax = [], UserID = 0\<rparr>"
      and q' = "\<lparr>ID = 42, Title = [], Body = [], Expires = zero_time,
            DeleteAfterRead = False, Privacy = [], Password = [], Created = 200,
            Syntax = [], UserID = 0\<rparr>"]
  by (simp add: handleCreate_def handleCreate_newPaste_def json_request_def memory_service_def
      seeded_by_def UnixNano_t42 rand_Uint64_def rand_Int63_def rngMask_def respond_def
      New_def Create_def Create_expires_def Create_password_def fresh_store_def empty_store_def
      plain_form_def blank_form_def gorm_Create_def Let_def)

end
